theory Spec2Isabelle
  imports Complex_Main
begin

section \<open>Data model\<close>

text \<open>
  The store keeps every colour as a string \<^verbatim>\<open>"H S% L%"\<close> and reads it back with
  \<^verbatim>\<open>split(" ")\<close> and \<^verbatim>\<open>Number.parseFloat(part.replace("%", ""))\<close>. A colour is
  represented here by the three numbers such a string carries: the template literal
  \<^verbatim>\<open>`${h} ${s}% ${l}%`\<close> is the constructor \<open>HSL h s l\<close>, and \<^verbatim>\<open>parseFloat\<close> of the
  three parts is the three selectors. The numbers are reals (the default theme has the hue
  \<^verbatim>\<open>357.18\<close>); floating-point rounding is outside the model.
\<close>

datatype Color = HSL (hue: real) (saturation: real) (lightness: real)

text \<open>
  \<^verbatim>\<open>Number.parseInt(str, 10)\<close> on the decimal rendering of a number keeps the digits
  before the decimal point: truncation towards zero.
\<close>

definition parseInt :: "real \<Rightarrow> int" where
  "parseInt x = (if 0 \<le> x then \<lfloor>x\<rfloor> else \<lceil>x\<rceil>)"

text \<open>The remainder operator \<^verbatim>\<open>%\<close> of JavaScript takes the sign of the dividend.\<close>

definition jsRem :: "int \<Rightarrow> int \<Rightarrow> int" where
  "jsRem a b = sgn a * (\<bar>a\<bar> mod \<bar>b\<bar>)"

text \<open>The type \<^verbatim>\<open>ThemeColors\<close>: one colour for each of the 31 role keys.\<close>

record ThemeColors =
  background :: Color
  foreground :: Color
  card :: Color
  cardForeground :: Color
  popover :: Color
  popoverForeground :: Color
  primary :: Color
  primaryForeground :: Color
  secondary :: Color
  secondaryForeground :: Color
  muted :: Color
  mutedForeground :: Color
  accent :: Color
  accentForeground :: Color
  destructive :: Color
  border :: Color
  input :: Color
  ring :: Color
  chart1 :: Color
  chart2 :: Color
  chart3 :: Color
  chart4 :: Color
  chart5 :: Color
  sidebar :: Color
  sidebarForeground :: Color
  sidebarPrimary :: Color
  sidebarPrimaryForeground :: Color
  sidebarAccent :: Color
  sidebarAccentForeground :: Color
  sidebarBorder :: Color
  sidebarRing :: Color

text \<open>The type \<^verbatim>\<open>ThemeColorKey\<close>: the keys of \<^verbatim>\<open>ThemeColors\<close>.\<close>

datatype ThemeColorKey =
    Background
  | Foreground
  | Card
  | CardForeground
  | Popover
  | PopoverForeground
  | Primary
  | PrimaryForeground
  | Secondary
  | SecondaryForeground
  | Muted
  | MutedForeground
  | Accent
  | AccentForeground
  | Destructive
  | Border
  | Input
  | Ring
  | Chart1
  | Chart2
  | Chart3
  | Chart4
  | Chart5
  | Sidebar
  | SidebarForeground
  | SidebarPrimary
  | SidebarPrimaryForeground
  | SidebarAccent
  | SidebarAccentForeground
  | SidebarBorder
  | SidebarRing

text \<open>The indexed write \<^verbatim>\<open>colors[key] = v\<close> and the indexed read \<^verbatim>\<open>colors[key]\<close>.\<close>

fun setColor :: "ThemeColorKey \<Rightarrow> Color \<Rightarrow> ThemeColors \<Rightarrow> ThemeColors" where
  "setColor Background v c = c\<lparr>background := v\<rparr>"
| "setColor Foreground v c = c\<lparr>foreground := v\<rparr>"
| "setColor Card v c = c\<lparr>card := v\<rparr>"
| "setColor CardForeground v c = c\<lparr>cardForeground := v\<rparr>"
| "setColor Popover v c = c\<lparr>popover := v\<rparr>"
| "setColor PopoverForeground v c = c\<lparr>popoverForeground := v\<rparr>"
| "setColor Primary v c = c\<lparr>primary := v\<rparr>"
| "setColor PrimaryForeground v c = c\<lparr>primaryForeground := v\<rparr>"
| "setColor Secondary v c = c\<lparr>secondary := v\<rparr>"
| "setColor SecondaryForeground v c = c\<lparr>secondaryForeground := v\<rparr>"
| "setColor Muted v c = c\<lparr>muted := v\<rparr>"
| "setColor MutedForeground v c = c\<lparr>mutedForeground := v\<rparr>"
| "setColor Accent v c = c\<lparr>accent := v\<rparr>"
| "setColor AccentForeground v c = c\<lparr>accentForeground := v\<rparr>"
| "setColor Destructive v c = c\<lparr>destructive := v\<rparr>"
| "setColor Border v c = c\<lparr>border := v\<rparr>"
| "setColor Input v c = c\<lparr>input := v\<rparr>"
| "setColor Ring v c = c\<lparr>ring := v\<rparr>"
| "setColor Chart1 v c = c\<lparr>chart1 := v\<rparr>"
| "setColor Chart2 v c = c\<lparr>chart2 := v\<rparr>"
| "setColor Chart3 v c = c\<lparr>chart3 := v\<rparr>"
| "setColor Chart4 v c = c\<lparr>chart4 := v\<rparr>"
| "setColor Chart5 v c = c\<lparr>chart5 := v\<rparr>"
| "setColor Sidebar v c = c\<lparr>sidebar := v\<rparr>"
| "setColor SidebarForeground v c = c\<lparr>sidebarForeground := v\<rparr>"
| "setColor SidebarPrimary v c = c\<lparr>sidebarPrimary := v\<rparr>"
| "setColor SidebarPrimaryForeground v c = c\<lparr>sidebarPrimaryForeground := v\<rparr>"
| "setColor SidebarAccent v c = c\<lparr>sidebarAccent := v\<rparr>"
| "setColor SidebarAccentForeground v c = c\<lparr>sidebarAccentForeground := v\<rparr>"
| "setColor SidebarBorder v c = c\<lparr>sidebarBorder := v\<rparr>"
| "setColor SidebarRing v c = c\<lparr>sidebarRing := v\<rparr>"

fun getColor :: "ThemeColorKey \<Rightarrow> ThemeColors \<Rightarrow> Color" where
  "getColor Background c = background c"
| "getColor Foreground c = foreground c"
| "getColor Card c = card c"
| "getColor CardForeground c = cardForeground c"
| "getColor Popover c = popover c"
| "getColor PopoverForeground c = popoverForeground c"
| "getColor Primary c = primary c"
| "getColor PrimaryForeground c = primaryForeground c"
| "getColor Secondary c = secondary c"
| "getColor SecondaryForeground c = secondaryForeground c"
| "getColor Muted c = muted c"
| "getColor MutedForeground c = mutedForeground c"
| "getColor Accent c = accent c"
| "getColor AccentForeground c = accentForeground c"
| "getColor Destructive c = destructive c"
| "getColor Border c = border c"
| "getColor Input c = input c"
| "getColor Ring c = ring c"
| "getColor Chart1 c = chart1 c"
| "getColor Chart2 c = chart2 c"
| "getColor Chart3 c = chart3 c"
| "getColor Chart4 c = chart4 c"
| "getColor Chart5 c = chart5 c"
| "getColor Sidebar c = sidebar c"
| "getColor SidebarForeground c = sidebarForeground c"
| "getColor SidebarPrimary c = sidebarPrimary c"
| "getColor SidebarPrimaryForeground c = sidebarPrimaryForeground c"
| "getColor SidebarAccent c = sidebarAccent c"
| "getColor SidebarAccentForeground c = sidebarAccentForeground c"
| "getColor SidebarBorder c = sidebarBorder c"
| "getColor SidebarRing c = sidebarRing c"

definition allKeys :: "ThemeColorKey list" where
  "allKeys = [Background, Foreground, Card, CardForeground, Popover, PopoverForeground, Primary, PrimaryForeground, Secondary, SecondaryForeground, Muted, MutedForeground, Accent, AccentForeground, Destructive, Border, Input, Ring, Chart1, Chart2, Chart3, Chart4, Chart5, Sidebar, SidebarForeground, SidebarPrimary, SidebarPrimaryForeground, SidebarAccent, SidebarAccentForeground, SidebarBorder, SidebarRing]"

record Fonts =
  heading :: string
  body :: string

text \<open>
  The type \<^verbatim>\<open>ThemePreset\<close> is declared outside the sources; its shape is read off the
  preset of the default theme and the code that uses presets: a name, hex colours for some
  of the role keys, and fonts and a border radius that may be absent. The fields are
  prefixed, since \<^verbatim>\<open>colors\<close>, \<^verbatim>\<open>fonts\<close> and \<^verbatim>\<open>borderRadius\<close> are fields of the state too.
\<close>

record ThemePreset =
  name :: string
  presetColors :: "(ThemeColorKey \<rightharpoonup> string) option"
  presetFonts :: "Fonts option"
  presetBorderRadius :: "real option"

record ThemeState =
  colors :: ThemeColors
  darkColors :: ThemeColors
  fonts :: Fonts
  borderRadius :: real
  isDarkMode :: bool
  selectedHarmony :: string
  exportMenuOpen :: bool
  shareMenuOpen :: bool
  predefinedThemes :: "ThemePreset list"
  currentTheme :: string

text \<open>
  The module \<^verbatim>\<open>./color-utils\<close> is imported by the store and is not part of the sources.
  Its functions are parameters of the model, collected in one record. A conversion from
  hex fails with a format error on a malformed string; this is the result \<open>None\<close>. The
  optional second argument of \<^verbatim>\<open>calculateContrastingColor\<close> is the role tag.
\<close>

datatype error = FormatError

record ColorUtils =
  hexToHSL :: "string \<Rightarrow> Color option"
  hslToHex :: "Color \<Rightarrow> string"
  getContrastHSL :: "Color \<Rightarrow> Color"
  calculateContrastingColor :: "Color \<Rightarrow> string option \<Rightarrow> Color"

text \<open>The result object of \<^verbatim>\<open>generateChartColors\<close> (its five fields, suffixed).\<close>

record ChartColors =
  chart1C :: Color
  chart2C :: Color
  chart3C :: Color
  chart4C :: Color
  chart5C :: Color

section \<open>Chart series generator\<close>

definition generateChartColors :: "Color \<Rightarrow> Color \<Rightarrow> Color \<Rightarrow> bool \<Rightarrow> ChartColors" where
  "generateChartColors primaryV secondaryV accentV isDark =
    (let primaryH = hue primaryV; primaryS = saturation primaryV; primaryL = lightness primaryV
     in if isDark then
          \<lparr> chart1C = primaryV,
            chart2C = HSL primaryH (min (primaryS + 5) 90) (min (primaryL + 15) 70),
            chart3C = HSL primaryH (min (primaryS + 10) 95) (min (primaryL + 25) 80),
            chart4C = HSL primaryH (max (primaryS - 10) 40) (max (primaryL - 15) 30),
            chart5C = HSL primaryH (max (primaryS - 20) 30) (max (primaryL - 25) 20) \<rparr>
        else
          \<lparr> chart1C = primaryV,
            chart2C = HSL primaryH (max (primaryS - 15) 30) (min (primaryL + 15) 75),
            chart3C = HSL primaryH (max (primaryS - 30) 20) (min (primaryL + 25) 85),
            chart4C = HSL primaryH (min (primaryS + 10) 90) (max (primaryL - 15) 25),
            chart5C = HSL primaryH (min (primaryS + 5) 85) (max (primaryL - 25) 20) \<rparr>)"

text \<open>
  The five assignments \<^verbatim>\<open>colors.chart1 = chartColors.chart1\<close> to
  \<^verbatim>\<open>colors.chart5 = chartColors.chart5\<close>, which the store repeats after every call of
  the generator.
\<close>

definition setChartColors :: "ChartColors \<Rightarrow> ThemeColors \<Rightarrow> ThemeColors" where
  "setChartColors chartColors c =
     c\<lparr>chart1 := chart1C chartColors, chart2 := chart2C chartColors,
       chart3 := chart3C chartColors, chart4 := chart4C chartColors,
       chart5 := chart5C chartColors\<rparr>"

section \<open>Dark palette derived from a light palette\<close>

definition deriveDarkModeColors :: "ColorUtils \<Rightarrow> ThemeColors \<Rightarrow> ThemeColors" where
  "deriveDarkModeColors cu lightCs =
    (let primaryH = hue (primary lightCs); primaryS = saturation (primary lightCs);
         primaryL = lightness (primary lightCs);
         secondaryH = hue (secondary lightCs); secondaryS = saturation (secondary lightCs);
         secondaryL = lightness (secondary lightCs);
         accentH = hue (accent lightCs); accentS = saturation (accent lightCs);
         accentL = lightness (accent lightCs);
         d1 = lightCs\<lparr>background := HSL primaryH 30 8\<rparr>;
         d2 = d1\<lparr>card := HSL primaryH 30 12\<rparr>;
         d3 = d2\<lparr>popover := card d2\<rparr>;
         d4 = d3\<lparr>foreground := HSL primaryH 10 95\<rparr>;
         d5 = d4\<lparr>cardForeground := foreground d4, popoverForeground := foreground d4\<rparr>;
         d6 = d5\<lparr>primary := HSL primaryH (max primaryS 60) (min (max primaryL 50) 60)\<rparr>;
         d7 = d6\<lparr>ring := primary d6\<rparr>;
         d8 = d7\<lparr>primaryForeground := calculateContrastingColor cu (primary d7) None\<rparr>;
         d9 = d8\<lparr>secondary :=
                 HSL secondaryH (max secondaryS 10) (max 15 (min 25 (secondaryL - 70)))\<rparr>;
         d10 = d9\<lparr>secondaryForeground := calculateContrastingColor cu (secondary d9) None\<rparr>;
         d11 = d10\<lparr>muted := secondary d10, mutedForeground := HSL secondaryH 15 65\<rparr>;
         d12 = d11\<lparr>accent := HSL accentH (max accentS 60) (min (max (accentL - 20) 40) 60)\<rparr>;
         d13 = d12\<lparr>accentForeground := calculateContrastingColor cu (accent d12) None\<rparr>;
         d14 = d13\<lparr>border := HSL primaryH 25 18\<rparr>;
         d15 = d14\<lparr>input := border d14\<rparr>;
         d16 = d15\<lparr>sidebar := background d15, sidebarForeground := foreground d15,
                   sidebarPrimary := primary d15,
                   sidebarPrimaryForeground := primaryForeground d15,
                   sidebarAccent := accent d15,
                   sidebarAccentForeground := accentForeground d15,
                   sidebarBorder := border d15, sidebarRing := ring d15\<rparr>;
         chartColors = generateChartColors (primary d16) (secondary d16) (accent d16) True
     in setChartColors chartColors d16)"

section \<open>Seed propagation: \<^verbatim>\<open>updateThemeColor\<close>\<close>

text \<open>
  The branch \<^verbatim>\<open>key === "primary" && isDarkMode\<close>. It reads the new value with
  \<^verbatim>\<open>parseInt\<close> and rebuilds the dark palette; the light palette is returned as it was.
\<close>

definition primaryDarkColors :: "Color \<Rightarrow> ThemeColors \<Rightarrow> ThemeColors" where
  "primaryDarkColors hslValue darkCs =
    (let h = parseInt (hue hslValue); s = parseInt (saturation hslValue);
         l = parseInt (lightness hslValue);
         d1 = darkCs\<lparr>primary := hslValue, ring := hslValue, sidebarPrimary := hslValue,
                  chart1 := hslValue\<rparr>;
         isPrimaryDark = l < 40;
         d2 = d1\<lparr>primaryForeground :=
                 (if isPrimaryDark then HSL 0 0 100 else HSL (of_int h) 10 95)\<rparr>;
         d3 = d2\<lparr>sidebarPrimaryForeground := primaryForeground d2\<rparr>;
         darkSecondaryH = h;
         darkSecondaryS = max (min (s - 40) 30) 7;
         darkSecondaryL = max (min (l - 20) 30) 15;
         darkSecondaryHSLValue =
           HSL (of_int darkSecondaryH) (of_int darkSecondaryS) (of_int darkSecondaryL);
         d4 = d3\<lparr>secondary := darkSecondaryHSLValue, muted := darkSecondaryHSLValue,
                 secondaryForeground := HSL (of_int darkSecondaryH) 10 95,
                 mutedForeground := HSL (of_int darkSecondaryH) 15 65\<rparr>;
         darkAccentH = jsRem (h + 30) 360;
         darkAccentS = min (s + 5) 80;
         darkAccentL = min (l + 15) 65;
         darkAccentHSLValue = HSL (of_int darkAccentH) (of_int darkAccentS) (of_int darkAccentL);
         d5 = d4\<lparr>accent := darkAccentHSLValue,
                 accentForeground := HSL (of_int darkAccentH) 50 10,
                 sidebarAccent := darkAccentHSLValue,
                 sidebarAccentForeground := HSL (of_int darkAccentH) 50 10\<rparr>;
         d6 = d5\<lparr>border := HSL (of_int darkSecondaryH) (of_int (darkSecondaryS + 5))
                             (of_int (min (darkSecondaryL + 10) 30))\<rparr>;
         d7 = d6\<lparr>input := border d6, sidebarBorder := border d6\<rparr>;
         darkChartColors =
           \<lparr> chart1C = hslValue,
             chart2C = HSL (of_int h) (of_int (min (s + 5) 90)) (of_int (min (l + 15) 75)),
             chart3C = HSL (of_int h) (of_int (min (s + 10) 95)) (of_int (min (l + 25) 85)),
             chart4C = HSL (of_int h) (of_int (max (s - 10) 40)) (of_int (max (l - 15) 25)),
             chart5C = HSL (of_int h) (of_int (max (s - 20) 30)) (of_int (max (l - 25) 15)) \<rparr>
     in setChartColors darkChartColors d7)"

text \<open>
  The other branches of the \<^verbatim>\<open>if\<close> chain, each from the pair of palette copies
  (\<^verbatim>\<open>lightColors\<close>, \<^verbatim>\<open>darkColors\<close>) to the pair after the branch.
\<close>

definition backgroundColors ::
  "Color \<Rightarrow> bool \<Rightarrow> ThemeColors \<times> ThemeColors \<Rightarrow> ThemeColors \<times> ThemeColors" where
  "backgroundColors hslValue isDark p =
    (case p of (lightCs, darkCs) \<Rightarrow>
      (lightCs\<lparr>background := hslValue, card := hslValue, popover := hslValue\<rparr>,
       if isDark
       then darkCs\<lparr>background := hslValue, card := hslValue, popover := hslValue,
                   sidebar := hslValue\<rparr>
       else darkCs))"

definition foregroundColors ::
  "ColorUtils \<Rightarrow> Color \<Rightarrow> ThemeColors \<times> ThemeColors \<Rightarrow> ThemeColors \<times> ThemeColors" where
  "foregroundColors cu hslValue p =
    (case p of (lightCs, darkCs) \<Rightarrow>
      (let d1 = darkCs\<lparr>foreground := getContrastHSL cu hslValue\<rparr>
       in (lightCs\<lparr>foreground := hslValue, cardForeground := hslValue,
                    popoverForeground := hslValue\<rparr>,
           d1\<lparr>cardForeground := foreground d1, popoverForeground := foreground d1\<rparr>)))"

definition primaryColors ::
  "ColorUtils \<Rightarrow> Color \<Rightarrow> bool \<Rightarrow> ThemeColors \<times> ThemeColors \<Rightarrow> ThemeColors \<times> ThemeColors"
  where
  "primaryColors cu hslValue isDark p =
    (case p of (lightCs, darkCs) \<Rightarrow>
      (let l1 = lightCs\<lparr>primary := hslValue,
                        primaryForeground := calculateContrastingColor cu hslValue None,
                        ring := hslValue, sidebarPrimary := hslValue,
                        sidebarPrimaryForeground := calculateContrastingColor cu hslValue None,
                        sidebarRing := hslValue\<rparr>;
           lightChartColors = generateChartColors hslValue (secondary l1) (accent l1) False;
           l2 = setChartColors lightChartColors l1
       in (l2,
           if \<not> isDark then
             (let darkChartColors =
                    generateChartColors (primary darkCs) (secondary darkCs) (accent darkCs) True;
                  d1 = setChartColors darkChartColors darkCs
              in d1\<lparr>primary := hslValue,
                    primaryForeground := calculateContrastingColor cu hslValue None,
                    ring := hslValue, sidebarPrimary := hslValue,
                    sidebarPrimaryForeground := calculateContrastingColor cu hslValue None,
                    sidebarRing := hslValue\<rparr>)
           else darkCs)))"

definition secondaryColors ::
  "ColorUtils \<Rightarrow> Color \<Rightarrow> bool \<Rightarrow> ThemeColors \<times> ThemeColors \<Rightarrow> ThemeColors \<times> ThemeColors"
  where
  "secondaryColors cu hslValue isDark p =
    (case p of (lightCs, darkCs) \<Rightarrow>
      (let l1 = lightCs\<lparr>secondary := hslValue,
                        secondaryForeground := calculateContrastingColor cu hslValue None,
                        muted := hslValue,
                        mutedForeground :=
                          calculateContrastingColor cu hslValue (Some ''mutedForeground''),
                        sidebar := hslValue,
                        sidebarForeground := calculateContrastingColor cu hslValue None\<rparr>;
           lightChartColors = generateChartColors (primary l1) hslValue (accent l1) False;
           l2 = setChartColors lightChartColors l1
       in (l2,
           if \<not> isDark then
             (let darkChartColors =
                    generateChartColors (primary darkCs) (secondary darkCs) (accent darkCs) True;
                  d1 = setChartColors darkChartColors darkCs;
                  h = hue hslValue; s = saturation hslValue; l = lightness hslValue;
                  secondaryL = l;
                  d2 = d1\<lparr>secondary := HSL h (max (s - 20) 10) (max 15 (min 25 (secondaryL - 70)))\<rparr>;
                  d3 = d2\<lparr>secondaryForeground := calculateContrastingColor cu (secondary d2) None\<rparr>;
                  d4 = d3\<lparr>muted := secondary d3\<rparr>
              in d4\<lparr>mutedForeground :=
                      calculateContrastingColor cu (secondary d4) (Some ''mutedForeground'')\<rparr>)
           else darkCs)))"

definition accentColors ::
  "ColorUtils \<Rightarrow> Color \<Rightarrow> bool \<Rightarrow> ThemeColors \<times> ThemeColors \<Rightarrow> ThemeColors \<times> ThemeColors"
  where
  "accentColors cu hslValue isDark p =
    (case p of (lightCs, darkCs) \<Rightarrow>
      (let l1 = lightCs\<lparr>accent := hslValue,
                        accentForeground := calculateContrastingColor cu hslValue None,
                        sidebarAccent := hslValue,
                        sidebarAccentForeground := calculateContrastingColor cu hslValue None\<rparr>;
           lightChartColors = generateChartColors (primary l1) (secondary l1) hslValue False;
           l2 = setChartColors lightChartColors l1
       in (l2,
           if \<not> isDark then
             (let darkChartColors =
                    generateChartColors (primary darkCs) (secondary darkCs) (accent darkCs) True;
                  d1 = setChartColors darkChartColors darkCs
              in d1\<lparr>accent := hslValue,
                    accentForeground := calculateContrastingColor cu hslValue None,
                    sidebarAccent := hslValue,
                    sidebarAccentForeground := calculateContrastingColor cu hslValue None\<rparr>)
           else darkCs)))"

text \<open>
  The function given to \<^verbatim>\<open>set\<close>: from the state before to the state after. The writes to
  the style sheet of the document and to the address bar that follow the computation do not
  touch the state and are left out.
\<close>

definition updateThemeColorState ::
  "ColorUtils \<Rightarrow> ThemeColorKey \<Rightarrow> Color \<Rightarrow> ThemeState \<Rightarrow> ThemeState" where
  "updateThemeColorState cu key hslValue state =
    (let lightCs = colors state; darkCs = darkColors state; isDark = isDarkMode state
     in if key = Primary \<and> isDark then
          state\<lparr>colors := lightCs, darkColors := primaryDarkColors hslValue darkCs\<rparr>
        else
          (let p = (if key = Background then backgroundColors hslValue isDark (lightCs, darkCs)
                    else if key = Foreground then foregroundColors cu hslValue (lightCs, darkCs)
                    else if key = Primary then primaryColors cu hslValue isDark (lightCs, darkCs)
                    else if key = Secondary then
                      secondaryColors cu hslValue isDark (lightCs, darkCs)
                    else if key = Accent then accentColors cu hslValue isDark (lightCs, darkCs)
                    else (setColor key hslValue lightCs, setColor key hslValue darkCs))
           in state\<lparr>colors := fst p, darkColors := snd p\<rparr>))"

text \<open>
  \<^verbatim>\<open>updateThemeColor(key, hexValue)\<close>: the hex value is converted first, outside
  \<^verbatim>\<open>set\<close>; when the conversion fails the store is not touched.
\<close>

definition updateThemeColor ::
  "ColorUtils \<Rightarrow> ThemeColorKey \<Rightarrow> string \<Rightarrow> ThemeState \<Rightarrow> error + ThemeState" where
  "updateThemeColor cu key hexValue state =
    (case hexToHSL cu hexValue of
       None \<Rightarrow> Inl FormatError
     | Some hslValue \<Rightarrow> Inr (updateThemeColorState cu key hslValue state))"

section \<open>Switching the mode: \<^verbatim>\<open>toggleDarkMode\<close>\<close>

text \<open>The state after \<^verbatim>\<open>toggleDarkMode\<close>: the flag is flipped, the palettes are kept.\<close>

definition toggleDarkMode :: "ThemeState \<Rightarrow> ThemeState" where
  "toggleDarkMode state = (let newIsDarkMode = \<not> isDarkMode state
                           in state\<lparr>isDarkMode := newIsDarkMode\<rparr>)"

section \<open>Reading a seed colour as hex: \<^verbatim>\<open>getHexColor\<close>\<close>

definition getHexColor :: "ColorUtils \<Rightarrow> ThemeState \<Rightarrow> ThemeColorKey \<Rightarrow> string" where
  "getHexColor cu state colorKey =
    (let cs = (if isDarkMode state then darkColors state else colors state)
     in case colorKey of
          Foreground \<Rightarrow> hslToHex cu (foreground cs)
        | Background \<Rightarrow> hslToHex cu (background cs)
        | Primary \<Rightarrow> hslToHex cu (primary cs)
        | Secondary \<Rightarrow> hslToHex cu (secondary cs)
        | Accent \<Rightarrow> hslToHex cu (accent cs)
        | _ \<Rightarrow> ''#000000'')"

section \<open>Selecting a preset: \<^verbatim>\<open>setCurrentTheme\<close>\<close>

definition bindE :: "error + 'a \<Rightarrow> ('a \<Rightarrow> error + 'b) \<Rightarrow> error + 'b" where
  "bindE r f = (case r of Inl e \<Rightarrow> Inl e | Inr x \<Rightarrow> f x)"

text \<open>
  The loop over \<^verbatim>\<open>Object.entries(theme.colors)\<close>. Every entry writes the field of its own
  key, so the order of the entries does not show in the result; the keys are visited in the
  order of \<open>allKeys\<close>. The test \<^verbatim>\<open>key in newLightColors\<close> holds for every role key, and
  \<^verbatim>\<open>key.includes("foreground")\<close> compares case-sensitively: of the role keys only
  \<^verbatim>\<open>foreground\<close> itself contains the lower-case word.
\<close>

fun applyPresetEntries ::
  "ColorUtils \<Rightarrow> (ThemeColorKey \<rightharpoonup> string) \<Rightarrow> ThemeColorKey list \<Rightarrow> ThemeColors
   \<Rightarrow> error + ThemeColors" where
  "applyPresetEntries cu m [] c = Inr c"
| "applyPresetEntries cu m (key # keys) c =
    (case m key of
       None \<Rightarrow> applyPresetEntries cu m keys c
     | Some v \<Rightarrow>
         if key \<noteq> Foreground then
           (case hexToHSL cu v of
              None \<Rightarrow> Inl FormatError
            | Some hsl \<Rightarrow> applyPresetEntries cu m keys (setColor key hsl c))
         else applyPresetEntries cu m keys c)"

definition presetForegrounds :: "ColorUtils \<Rightarrow> ThemeColors \<Rightarrow> ThemeColors" where
  "presetForegrounds cu c =
     c\<lparr>primaryForeground := calculateContrastingColor cu (primary c) None,
       secondaryForeground := calculateContrastingColor cu (secondary c) None,
       accentForeground := calculateContrastingColor cu (accent c) None,
       mutedForeground := calculateContrastingColor cu (muted c) (Some ''mutedForeground''),
       cardForeground := calculateContrastingColor cu (card c) None,
       popoverForeground := calculateContrastingColor cu (popover c) None,
       sidebarForeground := calculateContrastingColor cu (sidebar c) None,
       sidebarPrimaryForeground := calculateContrastingColor cu (sidebarPrimary c) None,
       sidebarAccentForeground := calculateContrastingColor cu (sidebarAccent c) None\<rparr>"

text \<open>
  One of the five blocks \<^verbatim>\<open>if (theme.colors.chartN) { ... }\<close>, for the key \<^verbatim>\<open>chartN\<close>;
  a string is truthy when it is not empty.
\<close>

definition presetChart ::
  "ColorUtils \<Rightarrow> (ThemeColorKey \<rightharpoonup> string) \<Rightarrow> ThemeColorKey \<Rightarrow> ThemeColors \<times> ThemeColors
   \<Rightarrow> error + ThemeColors \<times> ThemeColors" where
  "presetChart cu m key p =
    (case p of (lightCs, darkCs) \<Rightarrow>
      (case m key of
         None \<Rightarrow> Inr p
       | Some v \<Rightarrow>
           if v = [] then Inr p
           else (case hexToHSL cu v of
                   None \<Rightarrow> Inl FormatError
                 | Some c \<Rightarrow>
                     Inr (setColor key c lightCs,
                          setColor key
                            (HSL (hue c) (max (saturation c) 60)
                                 (min (max (lightness c) 50) 60)) darkCs))))"

definition presetPalettes ::
  "ColorUtils \<Rightarrow> (ThemeColorKey \<rightharpoonup> string) \<Rightarrow> ThemeColors \<times> ThemeColors
   \<Rightarrow> error + ThemeColors \<times> ThemeColors" where
  "presetPalettes cu m p =
    (case p of (newLightColors, newDarkColors) \<Rightarrow>
      bindE (applyPresetEntries cu m allKeys newLightColors) (\<lambda>l1.
        let l2 = presetForegrounds cu l1;
            generatedDarkColors = deriveDarkModeColors cu l2;
            d1 = fold (\<lambda>key d. setColor key (getColor key generatedDarkColors) d)
                      allKeys newDarkColors
        in bindE (presetChart cu m Chart1 (l2, d1)) (\<lambda>p1.
           bindE (presetChart cu m Chart2 p1) (\<lambda>p2.
           bindE (presetChart cu m Chart3 p2) (\<lambda>p3.
           bindE (presetChart cu m Chart4 p3) (\<lambda>p4.
           presetChart cu m Chart5 p4))))))"

definition presetFontsApplied :: "Fonts option \<Rightarrow> Fonts \<Rightarrow> Fonts" where
  "presetFontsApplied themeFonts stateFonts =
    (case themeFonts of
       None \<Rightarrow> stateFonts
     | Some f \<Rightarrow>
         (let f1 = (if heading f \<noteq> [] then stateFonts\<lparr>heading := heading f\<rparr> else stateFonts)
          in if body f \<noteq> [] then f1\<lparr>body := body f\<rparr> else f1))"

definition setCurrentTheme :: "ColorUtils \<Rightarrow> string \<Rightarrow> ThemeState \<Rightarrow> error + ThemeState" where
  "setCurrentTheme cu themeName state =
    (case find (\<lambda>t. name t = themeName) (predefinedThemes state) of
       None \<Rightarrow> Inr state
     | Some theme \<Rightarrow>
         bindE (case presetColors theme of
                  None \<Rightarrow> Inr (colors state, darkColors state)
                | Some m \<Rightarrow> presetPalettes cu m (colors state, darkColors state))
           (\<lambda>p. let newFonts = presetFontsApplied (presetFonts theme) (fonts state);
                    newBorderRadius = (case presetBorderRadius theme of
                                         Some r \<Rightarrow> r | None \<Rightarrow> borderRadius state)
                in Inr (state\<lparr>colors := fst p, darkColors := snd p, fonts := newFonts,
                              borderRadius := newBorderRadius, currentTheme := themeName\<rparr>)))"

section \<open>The shareable-link encoder: \<^verbatim>\<open>encodeThemeState\<close>\<close>

text \<open>
  \<^verbatim>\<open>compactHSL\<close> rewrites \<^verbatim>\<open>"120 50% 75%"\<close> to \<^verbatim>\<open>"120,50,75"\<close>: the same three numbers
  in another rendering, kept apart here by their own type.
\<close>

datatype CompactHSL = Compact real real real

definition compactHSL :: "Color \<Rightarrow> CompactHSL" where
  "compactHSL hsl = Compact (hue hsl) (saturation hsl) (lightness hsl)"

text \<open>
  The object \<^verbatim>\<open>minimalTheme\<close> is a JSON value; an object is the list of its entries in
  the order of insertion. A spread \<^verbatim>\<open>...(cond && { k: v })\<close> adds the entry when the
  condition holds and nothing otherwise.
\<close>

datatype json =
    JNull
  | JNum real
  | JStr string
  | JCompact CompactHSL
  | JArr "json list"
  | JObj "(string \<times> json) list"

definition essentialColors :: "ThemeColors \<Rightarrow> json" where
  "essentialColors c =
     JObj [(''bg'', JCompact (compactHSL (background c))),
           (''fg'', JCompact (compactHSL (foreground c))),
           (''p'', JCompact (compactHSL (primary c))),
           (''s'', JCompact (compactHSL (secondary c))),
           (''a'', JCompact (compactHSL (accent c))),
           (''d'', JCompact (compactHSL (destructive c)))]"

definition fontsEntry :: "Fonts \<Rightarrow> json list option" where
  "fontsEntry f =
    (if heading f \<noteq> ''Geist'' \<or> body f \<noteq> ''Geist''
     then Some [if heading f = ''Geist'' then JNull else JStr (heading f),
                if body f = ''Geist'' then JNull else JStr (body f)]
     else None)"

text \<open>The block "Remove null values from fonts array".\<close>

definition removeNullFonts :: "json list option \<Rightarrow> json list option" where
  "removeNullFonts fo =
    (case fo of
       Some [f0, f1] \<Rightarrow>
         if f0 = JNull \<and> f1 = JNull then None
         else if f0 = JNull then Some [JNull, f1]
         else if f1 = JNull then Some [f0]
         else Some [f0, f1]
     | _ \<Rightarrow> fo)"

definition minimalTheme :: "ThemeState \<Rightarrow> (string \<times> json) list" where
  "minimalTheme theme =
     [(''l'', essentialColors (colors theme))]
     @ (if isDarkMode theme then [(''d'', essentialColors (darkColors theme))] else [])
     @ (case removeNullFonts (fontsEntry (fonts theme)) of
          None \<Rightarrow> [] | Some f \<Rightarrow> [(''f'', JArr f)])
     @ (if borderRadius theme \<noteq> 8 then [(''r'', JNum (borderRadius theme))] else [])
     @ (if isDarkMode theme then [(''dm'', JNum 1)] else [])"

text \<open>
  The token is \<^verbatim>\<open>btoa(JSON.stringify(minimalTheme))\<close>. Both functions belong to the
  platform; their composition is the parameter \<open>toBase64\<close>, with \<open>None\<close> when it throws,
  and then the encoder returns the empty string.
\<close>

definition encodeThemeState :: "(json \<Rightarrow> string option) \<Rightarrow> ThemeState \<Rightarrow> string" where
  "encodeThemeState toBase64 theme =
    (case toBase64 (JObj (minimalTheme theme)) of Some token \<Rightarrow> token | None \<Rightarrow> [])"

section \<open>The default theme\<close>

definition defaultColors :: ThemeColors where
  "defaultColors =
    \<lparr> background = HSL 0 0 100, foreground = HSL 291 10 4,
      card = HSL 0 0 100, cardForeground = HSL 291 10 4,
      popover = HSL 0 0 100, popoverForeground = HSL 291 10 4,
      primary = HSL 291 80 45, primaryForeground = HSL 291 10 95,
      secondary = HSL 291 30 85, secondaryForeground = HSL 291 30 10,
      muted = HSL 291 30 85, mutedForeground = HSL 291 30 45,
      accent = HSL 291 50 75, accentForeground = HSL 291 50 10,
      destructive = HSL 357.18 100 45,
      border = HSL 291 30 80, input = HSL 291 30 80, ring = HSL 291 80 45,
      chart1 = HSL 291 80 45, chart2 = HSL 291 70 60, chart3 = HSL 291 60 70,
      chart4 = HSL 291 85 30, chart5 = HSL 291 85 20,
      sidebar = HSL 291 30 85, sidebarForeground = HSL 291 30 10,
      sidebarPrimary = HSL 291 80 45, sidebarPrimaryForeground = HSL 291 10 95,
      sidebarAccent = HSL 291 50 75, sidebarAccentForeground = HSL 291 50 10,
      sidebarBorder = HSL 291 30 80, sidebarRing = HSL 291 80 45 \<rparr>"

definition defaultDarkColors :: ThemeColors where
  "defaultDarkColors =
    \<lparr> background = HSL 291 40 8, foreground = HSL 291 10 95,
      card = HSL 291 40 12, cardForeground = HSL 291 10 95,
      popover = HSL 291 40 12, popoverForeground = HSL 291 10 95,
      primary = HSL 291 75 50, primaryForeground = HSL 291 10 95,
      secondary = HSL 291 30 15, secondaryForeground = HSL 291 30 95,
      muted = HSL 291 30 15, mutedForeground = HSL 291 15 65,
      accent = HSL 291 50 25, accentForeground = HSL 291 50 95,
      destructive = HSL 357.18 100 45,
      border = HSL 291 40 25, input = HSL 291 40 25, ring = HSL 291 75 50,
      chart1 = HSL 291 75 50, chart2 = HSL 291 80 65, chart3 = HSL 291 85 75,
      chart4 = HSL 291 65 35, chart5 = HSL 291 50 25,
      sidebar = HSL 291 40 8, sidebarForeground = HSL 291 10 95,
      sidebarPrimary = HSL 291 75 50, sidebarPrimaryForeground = HSL 291 10 95,
      sidebarAccent = HSL 291 50 25, sidebarAccentForeground = HSL 291 50 95,
      sidebarBorder = HSL 291 40 25, sidebarRing = HSL 291 75 50 \<rparr>"

definition defaultPreset :: ThemePreset where
  "defaultPreset =
    \<lparr> name = ''Default'',
      presetColors = Some (map_of
        [(Background, ''#ffffff''), (Foreground, ''#0a090f''), (Primary, ''#7a3be0''),
         (Secondary, ''#dbd2f5''), (Accent, ''#c48bea''), (Chart1, ''#7a3be0''),
         (Chart2, ''#9a50e5''), (Chart3, ''#b972e8''), (Chart4, ''#5524da''),
         (Chart5, ''#300cbe'')]),
      presetFonts = Some \<lparr> heading = ''Geist'', body = ''Geist'' \<rparr>,
      presetBorderRadius = None \<rparr>"

definition defaultTheme :: ThemeState where
  "defaultTheme =
    \<lparr> colors = defaultColors, darkColors = defaultDarkColors,
      fonts = \<lparr> heading = ''Geist'', body = ''Geist'' \<rparr>,
      borderRadius = 0.5, isDarkMode = False,
      selectedHarmony = ''monochromatic'',
      exportMenuOpen = False, shareMenuOpen = False,
      predefinedThemes = [defaultPreset],
      currentTheme = ''Default'' \<rparr>"

section \<open>An instance of the colour utilities for concrete evaluation\<close>

text \<open>
  Modelled from the spec: the contrast resolver of the module \<^verbatim>\<open>./color-utils\<close>, which is
  missing from the sources. It follows section 4.2 of the specification: below the
  legibility threshold (taken as 50) a light foreground of the same hue, \<open>(hue, 10, 95)\<close>,
  otherwise a dark one of the same hue with low saturation and low lightness; the muted
  role gets a mid-saturation, mid-lightness colour.
\<close>

definition sampleContrast :: "Color \<Rightarrow> string option \<Rightarrow> Color" where
  "sampleContrast bg role =
    (if role = Some ''mutedForeground'' then HSL (hue bg) 30 45
     else if lightness bg < 50 then HSL (hue bg) 10 95
     else HSL (hue bg) 10 10)"

text \<open>
  Modelled from the spec: one instance of the module \<^verbatim>\<open>./color-utils\<close>, missing from the
  sources, on which the store can be run for concrete inputs. The two conversions are
  tabulated on black and white only (the specification's own scenario converts
  \<^verbatim>\<open>#000000\<close> to \<^verbatim>\<open>0 0% 0%\<close>); no other hex value is evaluated through this instance,
  and no general statement below depends on it.
\<close>

definition sampleUtils :: ColorUtils where
  "sampleUtils =
    \<lparr> hexToHSL = (\<lambda>hex. if hex = ''#000000'' then Some (HSL 0 0 0)
                        else if hex = ''#ffffff'' then Some (HSL 0 0 100)
                        else None),
      hslToHex = (\<lambda>hsl. if lightness hsl = 100 then ''#ffffff''
                        else if lightness hsl = 0 then ''#000000''
                        else []),
      getContrastHSL = (\<lambda>hsl. sampleContrast hsl None),
      calculateContrastingColor = sampleContrast \<rparr>"

section \<open>Properties\<close>

subsection \<open>Auxiliary facts\<close>

lemma parseInt_of_int: "parseInt (of_int i) = i"
  by (simp add: parseInt_def)

lemma jsRem_nonneg: "0 \<le> a \<Longrightarrow> jsRem a 360 = a mod 360"
  by (simp add: jsRem_def sgn_if)

lemma dark_default_simps:
  "isDarkMode (toggleDarkMode defaultTheme)"
  "colors (toggleDarkMode defaultTheme) = defaultColors"
  "darkColors (toggleDarkMode defaultTheme) = defaultDarkColors"
  by (simp_all add: toggleDarkMode_def defaultTheme_def)

lemma sample_hex_simps:
  "hexToHSL sampleUtils ''#000000'' = Some (HSL 0 0 0)"
  "hexToHSL sampleUtils ''#ffffff'' = Some (HSL 0 0 100)"
  by (simp_all add: sampleUtils_def)

lemma update_sample:
  "updateThemeColor sampleUtils key ''#000000'' state =
     Inr (updateThemeColorState sampleUtils key (HSL 0 0 0) state)"
  "updateThemeColor sampleUtils key ''#ffffff'' state =
     Inr (updateThemeColorState sampleUtils key (HSL 0 0 100) state)"
  by (simp_all add: updateThemeColor_def sample_hex_simps)

lemma update_primary_dark:
  "isDarkMode state \<Longrightarrow>
   darkColors (updateThemeColorState cu Primary hsl state) =
     primaryDarkColors hsl (darkColors state)"
  by (simp add: updateThemeColorState_def Let_def)

text \<open>The dark palette that the dark-mode primary branch builds from white and from black.\<close>

lemma primaryDark_white:
  "primaryDarkColors (HSL 0 0 100) d =
    d\<lparr>primary := HSL 0 0 100, ring := HSL 0 0 100, sidebarPrimary := HSL 0 0 100,
      primaryForeground := HSL 0 10 95, sidebarPrimaryForeground := HSL 0 10 95,
      secondary := HSL 0 7 30, muted := HSL 0 7 30,
      secondaryForeground := HSL 0 10 95, mutedForeground := HSL 0 15 65,
      accent := HSL 30 5 65, accentForeground := HSL 30 50 10,
      sidebarAccent := HSL 30 5 65, sidebarAccentForeground := HSL 30 50 10,
      border := HSL 0 12 30, input := HSL 0 12 30, sidebarBorder := HSL 0 12 30,
      chart1 := HSL 0 0 100, chart2 := HSL 0 5 75, chart3 := HSL 0 10 85,
      chart4 := HSL 0 40 85, chart5 := HSL 0 30 75\<rparr>"
  by (simp add: primaryDarkColors_def parseInt_def jsRem_def Let_def setChartColors_def)

lemma primaryDark_black:
  "primaryDarkColors (HSL 0 0 0) d =
    d\<lparr>primary := HSL 0 0 0, ring := HSL 0 0 0, sidebarPrimary := HSL 0 0 0,
      primaryForeground := HSL 0 0 100, sidebarPrimaryForeground := HSL 0 0 100,
      secondary := HSL 0 7 15, muted := HSL 0 7 15,
      secondaryForeground := HSL 0 10 95, mutedForeground := HSL 0 15 65,
      accent := HSL 30 5 15, accentForeground := HSL 30 50 10,
      sidebarAccent := HSL 30 5 15, sidebarAccentForeground := HSL 30 50 10,
      border := HSL 0 12 25, input := HSL 0 12 25, sidebarBorder := HSL 0 12 25,
      chart1 := HSL 0 0 0, chart2 := HSL 0 5 15, chart3 := HSL 0 10 25,
      chart4 := HSL 0 40 25, chart5 := HSL 0 30 15\<rparr>"
  by (simp add: primaryDarkColors_def parseInt_def jsRem_def Let_def setChartColors_def)

text \<open>
  Whatever the new primary is, the foreground that the dark-mode primary branch computes
  for it is a light colour.
\<close>

lemma primaryDark_foreground_light:
  "95 \<le> lightness (primaryForeground (primaryDarkColors hsl d))"
  by (simp add: primaryDarkColors_def Let_def setChartColors_def)

text \<open>The radius entry of the link object is left out exactly for the radius 8.\<close>

lemma radius_omitted_iff:
  "map_of (minimalTheme theme) ''r'' = None \<longleftrightarrow> borderRadius theme = 8"
  by (simp add: minimalTheme_def split: option.splits)

subsection \<open>Editing the primary colour\<close>

text \<open>
  C1. In dark mode, for a hex value whose conversion has the integer components
  \<open>(h, s, l)\<close> (hue not negative), \<^verbatim>\<open>updateThemeColor("primary", hex)\<close> succeeds and
  overwrites the secondary and the accent of the dark palette, whatever they were: the
  secondary becomes hue \<open>h\<close>, saturation \<open>s - 40\<close> clamped into \<open>[7, 30]\<close> and lightness
  \<open>l - 20\<close> clamped into \<open>[15, 30]\<close>; the accent becomes hue \<open>(h + 30) mod 360\<close> with
  saturation \<open>min (s + 5) 80\<close> and lightness \<open>min (l + 15) 65\<close>. Both are
  computed from the new primary alone; nothing of the old values is copied.
\<close>

theorem primary_dark_resynthesis:
  assumes "isDarkMode state"
      and "hexToHSL cu hex = Some (HSL (of_int h) (of_int s) (of_int l))"
      and "0 \<le> h"
  shows "\<exists>state'. updateThemeColor cu Primary hex state = Inr state'
     \<and> secondary (darkColors state') =
         HSL (of_int h) (of_int (max (min (s - 40) 30) 7)) (of_int (max (min (l - 20) 30) 15))
     \<and> 7 \<le> saturation (secondary (darkColors state'))
     \<and> saturation (secondary (darkColors state')) \<le> 30
     \<and> 15 \<le> lightness (secondary (darkColors state'))
     \<and> lightness (secondary (darkColors state')) \<le> 30
     \<and> accent (darkColors state') =
         HSL (of_int ((h + 30) mod 360)) (of_int (min (s + 5) 80)) (of_int (min (l + 15) 65))
     \<and> saturation (accent (darkColors state')) \<le> 80
     \<and> lightness (accent (darkColors state')) \<le> 65"
  using assms
  by (simp add: updateThemeColor_def updateThemeColorState_def primaryDarkColors_def
      parseInt_of_int jsRem_nonneg Let_def setChartColors_def)

theorem primary_dark_resynthesis_witness:
  "isDarkMode (toggleDarkMode defaultTheme)
   \<and> hexToHSL sampleUtils ''#000000'' = Some (HSL (of_int 0) (of_int 0) (of_int 0))
   \<and> (0::int) \<le> 0
   \<and> (\<exists>state'. updateThemeColor sampleUtils Primary ''#000000'' (toggleDarkMode defaultTheme)
                  = Inr state'
        \<and> secondary (darkColors state') = HSL 0 7 15
        \<and> accent (darkColors state') = HSL 30 5 15)"
  using primary_dark_resynthesis
          [of "toggleDarkMode defaultTheme" sampleUtils "''#000000''" 0 0 0]
  by (simp add: dark_default_simps sample_hex_simps) blast

text \<open>
  C2. With dark mode inactive, for every hex value that converts,
  \<^verbatim>\<open>updateThemeColor("primary", hex)\<close> succeeds and leaves the secondary and the accent
  of the light palette as they were before the edit.
\<close>

theorem primary_light_keeps_secondary_accent:
  assumes "\<not> isDarkMode state" and "hexToHSL cu hex = Some hsl"
  shows "\<exists>state'. updateThemeColor cu Primary hex state = Inr state'
     \<and> secondary (colors state') = secondary (colors state)
     \<and> accent (colors state') = accent (colors state)"
  using assms
  by (simp add: updateThemeColor_def updateThemeColorState_def primaryColors_def
      Let_def setChartColors_def)

theorem primary_light_keeps_secondary_accent_witness:
  "\<not> isDarkMode defaultTheme
   \<and> hexToHSL sampleUtils ''#000000'' = Some (HSL 0 0 0)
   \<and> (\<exists>state'. updateThemeColor sampleUtils Primary ''#000000'' defaultTheme = Inr state'
        \<and> secondary (colors state') = HSL 291 30 85
        \<and> accent (colors state') = HSL 291 50 75)"
  using primary_light_keeps_secondary_accent [of defaultTheme sampleUtils "''#000000''" "HSL 0 0 0"]
  by (simp add: sample_hex_simps defaultTheme_def defaultColors_def)

subsection \<open>The chart series\<close>

text \<open>
  C3. For every primary colour \<open>(h, s, l)\<close> and any secondary and accent, the chart series
  generator returns chart1 equal to the primary in light and in dark mode, and in light
  mode chart2 to chart5 keep the hue \<open>h\<close> with
  chart2 = (max(s-15,30), min(l+15,75)), chart3 = (max(s-30,20), min(l+25,85)),
  chart4 = (min(s+10,90), max(l-15,25)), chart5 = (min(s+5,85), max(l-25,20)).
\<close>

theorem generateChartColors_light_table:
  "chart1C (generateChartColors (HSL h s l) sec acc True) = HSL h s l
   \<and> generateChartColors (HSL h s l) sec acc False =
       \<lparr> chart1C = HSL h s l,
         chart2C = HSL h (max (s - 15) 30) (min (l + 15) 75),
         chart3C = HSL h (max (s - 30) 20) (min (l + 25) 85),
         chart4C = HSL h (min (s + 10) 90) (max (l - 15) 25),
         chart5C = HSL h (min (s + 5) 85) (max (l - 25) 20) \<rparr>"
  by (simp add: generateChartColors_def)

text \<open>
  C4. The specification has the chart series written in dark mode by
  \<^verbatim>\<open>updateThemeColor("primary", hex)\<close> equal to the series of the dark-mode generator
  for the new primary. The code computes the series inline with other lightness bounds (ceilings 75
  and 85, floors 25 and 15, against 70, 80, 30 and 20 in the generator). Evaluated at
  white, chart2 and chart3 differ from the generator's; evaluated at black, chart4 and
  chart5 do.
\<close>

theorem primary_dark_charts_not_generator:
  "updateThemeColor sampleUtils Primary ''#ffffff'' (toggleDarkMode defaultTheme) =
     Inr (updateThemeColorState sampleUtils Primary (HSL 0 0 100) (toggleDarkMode defaultTheme))
   \<and> chart2 (darkColors (updateThemeColorState sampleUtils Primary (HSL 0 0 100)
                           (toggleDarkMode defaultTheme))) = HSL 0 5 75
   \<and> chart2C (generateChartColors (HSL 0 0 100) (HSL 0 7 30) (HSL 30 5 65) True) = HSL 0 5 70
   \<and> chart3 (darkColors (updateThemeColorState sampleUtils Primary (HSL 0 0 100)
                           (toggleDarkMode defaultTheme))) = HSL 0 10 85
   \<and> chart3C (generateChartColors (HSL 0 0 100) (HSL 0 7 30) (HSL 30 5 65) True) = HSL 0 10 80
   \<and> updateThemeColor sampleUtils Primary ''#000000'' (toggleDarkMode defaultTheme) =
     Inr (updateThemeColorState sampleUtils Primary (HSL 0 0 0) (toggleDarkMode defaultTheme))
   \<and> chart4 (darkColors (updateThemeColorState sampleUtils Primary (HSL 0 0 0)
                           (toggleDarkMode defaultTheme))) = HSL 0 40 25
   \<and> chart4C (generateChartColors (HSL 0 0 0) (HSL 0 7 15) (HSL 30 5 15) True) = HSL 0 40 30
   \<and> chart5 (darkColors (updateThemeColorState sampleUtils Primary (HSL 0 0 0)
                           (toggleDarkMode defaultTheme))) = HSL 0 30 15
   \<and> chart5C (generateChartColors (HSL 0 0 0) (HSL 0 7 15) (HSL 30 5 15) True) = HSL 0 30 20"
  by (simp add: update_sample update_primary_dark dark_default_simps primaryDark_white
      primaryDark_black generateChartColors_def)

subsection \<open>Editing the background and the accent\<close>

text \<open>
  C5, as amended. In dark mode, for every hex value that converts,
  \<^verbatim>\<open>updateThemeColor("background", hex)\<close> sets background, card and popover of the light
  palette, and background, card, popover and sidebar of the dark palette, to the new value;
  every other field of the two palettes and of the state stays as it was.
\<close>

theorem background_dark_sets_both:
  assumes "isDarkMode state" and "hexToHSL cu hex = Some hsl"
  shows "updateThemeColor cu Background hex state =
    Inr (state\<lparr>colors := (colors state)\<lparr>background := hsl, card := hsl, popover := hsl\<rparr>,
               darkColors := (darkColors state)\<lparr>background := hsl, card := hsl,
                                                 popover := hsl, sidebar := hsl\<rparr>\<rparr>)"
  using assms
  by (simp add: updateThemeColor_def updateThemeColorState_def backgroundColors_def Let_def)

theorem background_dark_sets_both_witness:
  "isDarkMode (toggleDarkMode defaultTheme)
   \<and> hexToHSL sampleUtils ''#000000'' = Some (HSL 0 0 0)
   \<and> updateThemeColor sampleUtils Background ''#000000'' (toggleDarkMode defaultTheme) =
      Inr ((toggleDarkMode defaultTheme)
        \<lparr>colors := defaultColors\<lparr>background := HSL 0 0 0, card := HSL 0 0 0,
                                 popover := HSL 0 0 0\<rparr>,
         darkColors := defaultDarkColors\<lparr>background := HSL 0 0 0, card := HSL 0 0 0,
                                         popover := HSL 0 0 0, sidebar := HSL 0 0 0\<rparr>\<rparr>)"
  using background_dark_sets_both
          [of "toggleDarkMode defaultTheme" sampleUtils "''#000000''" "HSL 0 0 0"]
  by (simp add: dark_default_simps sample_hex_simps)

text \<open>
  C5 in the specification's wording, with the light palette untouched, does not hold: from
  the default theme switched to dark mode, editing the background to black changes the
  background of the light palette from white to black.
\<close>

theorem background_dark_changes_light:
  "isDarkMode (toggleDarkMode defaultTheme)
   \<and> updateThemeColor sampleUtils Background ''#000000'' (toggleDarkMode defaultTheme) =
      Inr (updateThemeColorState sampleUtils Background (HSL 0 0 0) (toggleDarkMode defaultTheme))
   \<and> background (colors (toggleDarkMode defaultTheme)) = HSL 0 0 100
   \<and> background (colors (updateThemeColorState sampleUtils Background (HSL 0 0 0)
                           (toggleDarkMode defaultTheme))) = HSL 0 0 0
   \<and> colors (updateThemeColorState sampleUtils Background (HSL 0 0 0)
                 (toggleDarkMode defaultTheme)) \<noteq> colors (toggleDarkMode defaultTheme)"
proof -
  have bg: "background (colors (updateThemeColorState sampleUtils Background (HSL 0 0 0)
                           (toggleDarkMode defaultTheme))) = HSL 0 0 0"
    by (simp add: updateThemeColorState_def backgroundColors_def Let_def)
  have old: "background (colors (toggleDarkMode defaultTheme)) = HSL 0 0 100"
    by (simp add: dark_default_simps defaultColors_def)
  have "colors (updateThemeColorState sampleUtils Background (HSL 0 0 0)
                 (toggleDarkMode defaultTheme)) \<noteq> colors (toggleDarkMode defaultTheme)"
  proof
    assume "colors (updateThemeColorState sampleUtils Background (HSL 0 0 0)
                 (toggleDarkMode defaultTheme)) = colors (toggleDarkMode defaultTheme)"
    then have "background (colors (updateThemeColorState sampleUtils Background (HSL 0 0 0)
                 (toggleDarkMode defaultTheme))) = background (colors (toggleDarkMode defaultTheme))"
      by simp
    with bg old show False by simp
  qed
  with bg old show ?thesis
    by (simp add: update_sample dark_default_simps)
qed

text \<open>
  C6, as amended. With dark mode inactive, for every hex value that converts,
  \<^verbatim>\<open>updateThemeColor("accent", hex)\<close> sets the accent and the sidebar accent of the dark
  palette to the new value itself, the value that the accent of the light palette gets,
  and sets the accent foreground and the sidebar accent foreground of the dark palette to
  the contrast colour of the new value.
\<close>

theorem accent_light_copies_to_dark:
  assumes "\<not> isDarkMode state" and "hexToHSL cu hex = Some hsl"
  shows "\<exists>state'. updateThemeColor cu Accent hex state = Inr state'
     \<and> accent (colors state') = hsl
     \<and> accent (darkColors state') = hsl
     \<and> sidebarAccent (darkColors state') = hsl
     \<and> accentForeground (darkColors state') = calculateContrastingColor cu hsl None
     \<and> sidebarAccentForeground (darkColors state') = calculateContrastingColor cu hsl None"
  using assms
  by (simp add: updateThemeColor_def updateThemeColorState_def accentColors_def
      Let_def setChartColors_def)

theorem accent_light_copies_to_dark_witness:
  "\<not> isDarkMode defaultTheme
   \<and> hexToHSL sampleUtils ''#ffffff'' = Some (HSL 0 0 100)
   \<and> (\<exists>state'. updateThemeColor sampleUtils Accent ''#ffffff'' defaultTheme = Inr state'
        \<and> accent (colors state') = HSL 0 0 100
        \<and> accent (darkColors state') = HSL 0 0 100
        \<and> sidebarAccent (darkColors state') = HSL 0 0 100
        \<and> accentForeground (darkColors state') = HSL 0 10 10
        \<and> sidebarAccentForeground (darkColors state') = HSL 0 10 10)"
  using accent_light_copies_to_dark [of defaultTheme sampleUtils "''#ffffff''" "HSL 0 0 100"]
  by (simp add: sample_hex_simps defaultTheme_def sampleUtils_def sampleContrast_def)

text \<open>
  C6 in the specification's wording, with a transformed dark accent that never duplicates
  the seed value, does not hold: from the default theme, in light mode, editing the accent
  to black makes the accent of the dark palette black, the seed value itself and the value
  of the accent of the light palette.
\<close>

theorem accent_dark_is_verbatim_copy:
  "\<not> isDarkMode defaultTheme
   \<and> updateThemeColor sampleUtils Accent ''#000000'' defaultTheme =
      Inr (updateThemeColorState sampleUtils Accent (HSL 0 0 0) defaultTheme)
   \<and> accent (colors (updateThemeColorState sampleUtils Accent (HSL 0 0 0) defaultTheme))
      = HSL 0 0 0
   \<and> accent (darkColors (updateThemeColorState sampleUtils Accent (HSL 0 0 0) defaultTheme))
      = HSL 0 0 0"
  by (simp add: update_sample updateThemeColorState_def accentColors_def Let_def
      setChartColors_def defaultTheme_def)

subsection \<open>The foreground of a new primary\<close>

text \<open>
  C7. The specification gives a background of lightness at least 50 a foreground of
  lightness at most 15, in particular the foreground computed for a newly edited primary.
  In dark mode the code computes that foreground inline and always takes a light colour:
  for the new primary white, of lightness 100, the primary foreground is \<open>(0, 10, 95)\<close>.
\<close>

theorem primary_dark_foreground_white:
  "updateThemeColor sampleUtils Primary ''#ffffff'' (toggleDarkMode defaultTheme) =
     Inr (updateThemeColorState sampleUtils Primary (HSL 0 0 100) (toggleDarkMode defaultTheme))
   \<and> primary (darkColors (updateThemeColorState sampleUtils Primary (HSL 0 0 100)
                            (toggleDarkMode defaultTheme))) = HSL 0 0 100
   \<and> primaryForeground (darkColors (updateThemeColorState sampleUtils Primary (HSL 0 0 100)
                            (toggleDarkMode defaultTheme))) = HSL 0 10 95"
  by (simp add: update_sample update_primary_dark dark_default_simps primaryDark_white)

subsection \<open>Presets, the link encoder and hex read-out\<close>

text \<open>
  C8. If no preset of the state has the given name, \<^verbatim>\<open>setCurrentTheme(name)\<close> returns
  the state it was given, equal in every field, and raises no error.
\<close>

theorem setCurrentTheme_unknown_noop:
  assumes "\<forall>t \<in> set (predefinedThemes state). name t \<noteq> themeName"
  shows "setCurrentTheme cu themeName state = Inr state"
proof -
  have "find (\<lambda>t. name t = themeName) (predefinedThemes state) = None"
    using assms by (simp add: find_None_iff)
  then show ?thesis by (simp add: setCurrentTheme_def)
qed

theorem setCurrentTheme_unknown_noop_witness:
  "predefinedThemes defaultTheme = [defaultPreset]
   \<and> name defaultPreset \<noteq> ''Ocean''
   \<and> setCurrentTheme sampleUtils ''Ocean'' defaultTheme = Inr defaultTheme"
proof -
  have h: "\<forall>t \<in> set (predefinedThemes defaultTheme). name t \<noteq> ''Ocean''"
    by (simp add: defaultTheme_def defaultPreset_def)
  from setCurrentTheme_unknown_noop [OF h, of sampleUtils] show ?thesis
    by (simp add: defaultTheme_def defaultPreset_def)
qed

text \<open>
  C9. The specification has the encoder leave the radius out of the token when the state
  has the default theme's border radius. The default radius is 0.5, the encoder compares with
  8: the object encoded for the default theme has the entry \<open>r = 0.5\<close>.
\<close>

theorem encode_default_keeps_radius:
  "borderRadius defaultTheme = 0.5
   \<and> minimalTheme defaultTheme = [(''l'', essentialColors defaultColors), (''r'', JNum 0.5)]
   \<and> map_of (minimalTheme defaultTheme) ''r'' = Some (JNum 0.5)
   \<and> encodeThemeState toBase64 defaultTheme =
       (case toBase64 (JObj [(''l'', essentialColors defaultColors), (''r'', JNum 0.5)]) of
          Some token \<Rightarrow> token | None \<Rightarrow> [])"
  by (simp add: encodeThemeState_def minimalTheme_def defaultTheme_def fontsEntry_def
      removeNullFonts_def)

text \<open>
  C10. For every role key other than background, foreground, primary, secondary and accent,
  \<^verbatim>\<open>getHexColor\<close> returns the string \<^verbatim>\<open>#000000\<close>, whatever the palettes hold; for these
  five keys it returns the hex conversion of the value in the active palette, the dark one
  in dark mode and the light one otherwise.
\<close>

theorem getHexColor_seed_or_black:
  "(key \<notin> {Background, Foreground, Primary, Secondary, Accent}
      \<longrightarrow> getHexColor cu state key = ''#000000'')
   \<and> (key \<in> {Background, Foreground, Primary, Secondary, Accent}
      \<longrightarrow> getHexColor cu state key =
            hslToHex cu (getColor key (if isDarkMode state then darkColors state
                                       else colors state)))"
  by (cases key) (simp_all add: getHexColor_def)

theorem getHexColor_seed_or_black_witness:
  "Destructive \<notin> {Background, Foreground, Primary, Secondary, Accent}
   \<and> getHexColor sampleUtils defaultTheme Destructive = ''#000000''
   \<and> destructive (colors defaultTheme) = HSL 357.18 100 45
   \<and> Background \<in> {Background, Foreground, Primary, Secondary, Accent}
   \<and> getHexColor sampleUtils defaultTheme Background = ''#ffffff''"
  using getHexColor_seed_or_black [of Destructive sampleUtils defaultTheme]
        getHexColor_seed_or_black [of Background sampleUtils defaultTheme]
  by (simp add: defaultTheme_def defaultColors_def sampleUtils_def)

end
